theory Spec2Isabelle
  imports Complex_Main
begin

section \<open>The Salaryman: per-frame simulation of \<^verbatim>\<open>main.js\<close> and its simplified variant\<close>

text \<open>
  The model follows the two JavaScript sources function by function. The module-level
  variables of \<^verbatim>\<open>main.js\<close> (\<^verbatim>\<open>world\<close>, \<^verbatim>\<open>cameraX\<close>, \<^verbatim>\<open>player\<close>, \<^verbatim>\<open>coffee\<close>,
  \<^verbatim>\<open>moneyPickups\<close>, \<^verbatim>\<open>hrDrone\<close>, \<^verbatim>\<open>burnout\<close>, \<^verbatim>\<open>invincibleTimer\<close>, \<^verbatim>\<open>credits\<close>,
  \<^verbatim>\<open>messages\<close>, \<^verbatim>\<open>gameOver\<close>, \<^verbatim>\<open>gameOverReason\<close>) form one record that every update
  function takes and returns. The \<^verbatim>\<open>keys\<close> object is written by the event handlers
  between two frames and only read by the simulation, so each tick receives it as an
  argument. \<^verbatim>\<open>WIDTH\<close> and \<^verbatim>\<open>HEIGHT\<close> come from the canvas element of the page, which
  is not part of the sources; they are taken as a parameter.

  JavaScript numbers are IEEE-754 doubles. Positions, velocities and the invincibility
  timer are modelled as exact reals: rounding, infinities and NaN are outside the model.
  The \<^verbatim>\<open>time\<close> of a message is different: it is decremented on every tick for seconds
  on end and then compared with zero, so the rounding of each subtraction decides on
  which tick the message goes. Its decrement is modelled as the double-precision
  subtraction (\<open>roundDouble\<close> below). \<^verbatim>\<open>credits\<close> only ever holds \<open>0 + 20 * k\<close> and is
  printed into a message, so it is an integer.
\<close>

subsection \<open>Data\<close>

record canvas =
  WIDTH :: real
  HEIGHT :: real

record world =
  width :: real

record keys =
  left :: bool
  right :: bool
  jump :: bool

text \<open>
  \<^verbatim>\<open>rectsOverlap\<close> reads \<^verbatim>\<open>x\<close>, \<^verbatim>\<open>y\<close>, \<^verbatim>\<open>width\<close>, \<^verbatim>\<open>height\<close> of whatever object it is
  given; the entity records extend one record of these four fields.
\<close>

record box =
  x :: real
  y :: real
  width :: real
  height :: real

record mover = box +
  vx :: real

record player = mover +
  vy :: real
  speed :: real
  jumpForce :: real
  onGround :: bool

record pickup = box +
  collected :: bool

record drone = mover +
  leftBound :: real
  rightBound :: real

record message =
  "text" :: string
  time :: real

text \<open>The state of the simplified variant (\<^verbatim>\<open>part_000\<close>): a player and the coffee.\<close>

record basic =
  player :: player
  coffee :: pickup

text \<open>The state of \<^verbatim>\<open>main.js\<close>.\<close>

record game =
  world :: world
  cameraX :: real
  player :: player
  coffee :: pickup
  moneyPickups :: "pickup list"
  hrDrone :: drone
  burnout :: real
  invincibleTimer :: real
  credits :: int
  messages :: "message list"
  gameOver :: bool
  gameOverReason :: string

subsection \<open>Constants\<close>

definition gravity :: real where
  "gravity = 2000"

definition groundHeight :: real where
  "groundHeight = 80"

definition burnoutMax :: real where
  "burnoutMax = 100"

subsection \<open>Double-precision subtraction\<close>

text \<open>
  \<^verbatim>\<open>msg.time -= dt\<close> stores the double nearest to the exact difference, ties going to
  the even significand. \<open>roundDouble\<close> rounds a real to 53 significant bits in that
  way: \<open>binade r\<close> is the exponent \<open>e\<close> with \<open>pow2 e \<le> \<bar>r\<bar> < pow2 (e + 1)\<close>, computed
  from the number of bits of an integer part (lemma \<open>binade_bounds\<close>), and the result
  is the multiple of \<open>pow2 (e - 52)\<close> nearest to \<open>r\<close>. The exponent is not bounded: the
  difference of two doubles below the normal range is a double itself, so nothing is
  rounded there, and a difference beyond the largest double does not arise from a
  message time and a frame time.
\<close>

fun bits :: "nat \<Rightarrow> nat" where
  "bits n = (if n = 0 then 0 else Suc (bits (n div 2)))"

declare bits.simps [simp del]

definition pow2 :: "int \<Rightarrow> real" where
  "pow2 e = (if 0 \<le> e then 2 ^ nat e else 1 / 2 ^ nat (- e))"

definition binade :: "real \<Rightarrow> int" where
  "binade r =
     (if 1 \<le> \<bar>r\<bar> then int (bits (nat \<lfloor>\<bar>r\<bar>\<rfloor>)) - 1
      else - int (bits (nat (\<lceil>1 / \<bar>r\<bar>\<rceil> - 1))))"

definition roundHalfEven :: "real \<Rightarrow> int" where
  "roundHalfEven q =
     (let f = \<lfloor>q\<rfloor>; d = q - of_int f
      in if d < 1 / 2 then f else if 1 / 2 < d then f + 1 else if even f then f else f + 1)"

definition roundDouble :: "real \<Rightarrow> real" where
  "roundDouble r =
     (if r = 0 then 0
      else let u = pow2 (binade r - 52) in of_int (roundHalfEven (r / u)) * u)"

subsection \<open>Messages\<close>

definition showMessage :: "string \<Rightarrow> game \<Rightarrow> game" where
  "showMessage t s = s\<lparr>messages := messages s @ [\<lparr>text = t, time = 7\<rparr>]\<rparr>"

text \<open>
  The second loop of \<^verbatim>\<open>updateMessages\<close> walks the indices from \<^verbatim>\<open>length - 1\<close> down to
  \<^verbatim>\<open>0\<close> and splices an expired entry out. \<open>removeExpired n ms\<close> is the loop with \<open>n\<close>
  indices left to visit, so the index visited next is \<open>n - 1\<close>.
\<close>

fun removeExpired :: "nat \<Rightarrow> message list \<Rightarrow> message list" where
  "removeExpired 0 ms = ms"
| "removeExpired (Suc i) ms =
     removeExpired i (if time (ms ! i) \<le> 0 then take i ms @ drop (Suc i) ms else ms)"

text \<open>
  \<open>tickMessages\<close> is the body of \<^verbatim>\<open>updateMessages\<close> on the list itself: the first loop
  decrements every \<^verbatim>\<open>time\<close>, the second removes the expired entries.
\<close>

definition tickMessages :: "real \<Rightarrow> message list \<Rightarrow> message list" where
  "tickMessages dt ms =
     (let ms = map (\<lambda>msg. msg\<lparr>time := roundDouble (time msg - dt)\<rparr>) ms
      in removeExpired (length ms) ms)"

definition updateMessages :: "real \<Rightarrow> game \<Rightarrow> game" where
  "updateMessages dt s = s\<lparr>messages := tickMessages dt (messages s)\<rparr>"

subsection \<open>Utilities\<close>

text \<open>Both sources define \<^verbatim>\<open>rectsOverlap\<close> with the same body.\<close>

definition rectsOverlap :: "'a box_scheme \<Rightarrow> 'b box_scheme \<Rightarrow> bool" where
  "rectsOverlap a b =
     (\<not> (x a + width a < x b \<or>
         x a > x b + width b \<or>
         y a + height a < y b \<or>
         y a > y b + height b))"

text \<open>
  The template literal \<^verbatim>\<open>${credits}\<close> prints the integer in decimal.
\<close>

fun digits :: "nat \<Rightarrow> string" where
  "digits n =
     (if n < 10 then [''0123456789'' ! n]
      else digits (n div 10) @ [''0123456789'' ! (n mod 10)])"

declare digits.simps [simp del]

definition numberString :: "int \<Rightarrow> string" where
  "numberString n = (if n < 0 then ''-'' @ digits (nat (- n)) else digits (nat n))"

subsection \<open>Game over\<close>

definition triggerGameOver :: "string \<Rightarrow> game \<Rightarrow> game" where
  "triggerGameOver reason s =
     showMessage ''Game over. Refresh the page to try again.''
       (s\<lparr>gameOver := True, gameOverReason := reason\<rparr>)"

subsection \<open>Player\<close>

text \<open>
  \<^verbatim>\<open>updatePlayer\<close> is a sequence of blocks, each under a comment of its own. Every
  block is one function on the player record, named after its comment; the blocks
  \<^verbatim>\<open>// Horizontal movement\<close>, \<^verbatim>\<open>// Jumping\<close>, \<^verbatim>\<open>// Apply gravity\<close>,
  \<^verbatim>\<open>// Apply velocities\<close> and \<^verbatim>\<open>// Ground collision\<close> have the same text in
  \<^verbatim>\<open>update\<close> of the simplified variant.
\<close>

definition horizontalMovement :: "keys \<Rightarrow> player \<Rightarrow> player" where
  "horizontalMovement k p =
     (let p = p\<lparr>vx := 0\<rparr>;
          p = (if left k then p\<lparr>vx := - speed p\<rparr> else p);
          p = (if right k then p\<lparr>vx := speed p\<rparr> else p)
      in p)"

definition jumping :: "keys \<Rightarrow> player \<Rightarrow> player" where
  "jumping k p =
     (if jump k \<and> onGround p then p\<lparr>vy := jumpForce p, onGround := False\<rparr> else p)"

definition applyGravity :: "real \<Rightarrow> player \<Rightarrow> player" where
  "applyGravity dt p = p\<lparr>vy := vy p + gravity * dt\<rparr>"

definition applyVelocities :: "real \<Rightarrow> player \<Rightarrow> player" where
  "applyVelocities dt p =
     (let p = p\<lparr>x := x p + vx p * dt\<rparr>;
          p = p\<lparr>y := y p + vy p * dt\<rparr>
      in p)"

definition clampToWorldBounds :: "world \<Rightarrow> player \<Rightarrow> player" where
  "clampToWorldBounds w p =
     (let p = (if x p < 0 then p\<lparr>x := 0\<rparr> else p);
          p = (if x p + width p > world.width w
               then p\<lparr>x := world.width w - width p\<rparr> else p)
      in p)"

definition groundCollision :: "canvas \<Rightarrow> player \<Rightarrow> player" where
  "groundCollision cv p =
     (let floorY = HEIGHT cv - groundHeight - height p
      in if y p > floorY then p\<lparr>y := floorY, vy := 0, onGround := True\<rparr> else p)"

definition updatePlayer :: "canvas \<Rightarrow> real \<Rightarrow> keys \<Rightarrow> game \<Rightarrow> game" where
  "updatePlayer cv dt k s =
     (if gameOver s then s
      else
        let p = player s;
            p = horizontalMovement k p;
            p = jumping k p;
            p = applyGravity dt p;
            p = applyVelocities dt p;
            p = clampToWorldBounds (world s) p;
            p = groundCollision cv p
        in s\<lparr>player := p\<rparr>)"

subsection \<open>Camera\<close>

definition updateCamera :: "canvas \<Rightarrow> game \<Rightarrow> game" where
  "updateCamera cv s =
     (let c = x (player s) + width (player s) / 2 - WIDTH cv / 2;
          c = (if c < 0 then 0 else c);
          c = (if c > world.width (world s) - WIDTH cv
               then world.width (world s) - WIDTH cv else c)
      in s\<lparr>cameraX := c\<rparr>)"

subsection \<open>Hazard\<close>

text \<open>
  \<^verbatim>\<open>updateHRDrone\<close> has two parts: the patrol motion of the drone (the statements
  before the comment \<^verbatim>\<open>// Collision with player\<close>) and the contact check after it.
  They are two functions here, so that a statement can name the boxes the contact check
  compares.
\<close>

definition moveHRDrone :: "real \<Rightarrow> drone \<Rightarrow> drone" where
  "moveHRDrone dt h =
     (let h = h\<lparr>x := x h + vx h * dt\<rparr>;
          h = (if x h < leftBound h
               then h\<lparr>x := leftBound h, vx := vx h * (- 1)\<rparr> else h);
          h = (if x h + width h > rightBound h
               then h\<lparr>x := rightBound h - width h, vx := vx h * (- 1)\<rparr> else h)
      in h)"

definition hitPlayer :: "game \<Rightarrow> game" where
  "hitPlayer s =
     (if \<not> gameOver s \<and> rectsOverlap (player s) (hrDrone s) then
        (if invincibleTimer s \<le> 0 then
           let s = s\<lparr>burnout := burnout s + 25\<rparr>;
               s = s\<lparr>invincibleTimer := 1\<rparr>;
               s = showMessage ''HR Drone: unauthorized happiness detected.'' s
           in (if burnout s \<ge> burnoutMax
               then triggerGameOver ''Burnout: you finally quit your job.''
                      (s\<lparr>burnout := burnoutMax\<rparr>)
               else s)
         else s)
      else s)"

definition updateHRDrone :: "real \<Rightarrow> game \<Rightarrow> game" where
  "updateHRDrone dt s =
     (if gameOver s then s
      else hitPlayer (s\<lparr>hrDrone := moveHRDrone dt (hrDrone s)\<rparr>))"

subsection \<open>Pickups\<close>

text \<open>
  The \<^verbatim>\<open>for (const m of moneyPickups)\<close> loop: the pickups still to visit, and the state
  (its \<^verbatim>\<open>credits\<close> and \<^verbatim>\<open>messages\<close> change on the way). The result is the visited
  pickups as the loop leaves them, and the state.
\<close>

fun collectMoney :: "pickup list \<Rightarrow> game \<Rightarrow> pickup list \<times> game" where
  "collectMoney [] s = ([], s)"
| "collectMoney (m # ms) s =
     (if \<not> collected m \<and> rectsOverlap (player s) m then
        let m = m\<lparr>collected := True\<rparr>;
            s = s\<lparr>credits := credits s + 20\<rparr>;
            s = showMessage (''+20 credits (total: '' @ numberString (credits s) @ '')'') s;
            (ms, s) = collectMoney ms s
        in (m # ms, s)
      else
        let (ms, s) = collectMoney ms s
        in (m # ms, s))"

definition updatePickups :: "real \<Rightarrow> game \<Rightarrow> game" where
  "updatePickups dt s =
     (let s = (if \<not> collected (coffee s) \<and> rectsOverlap (player s) (coffee s)
               then showMessage ''Coffee acquired: +5 morale (pure placebo).''
                      (s\<lparr>coffee := (coffee s)\<lparr>collected := True\<rparr>\<rparr>)
               else s);
          (ms, s) = collectMoney (moneyPickups s) s
      in s\<lparr>moneyPickups := ms\<rparr>)"

subsection \<open>Timers\<close>

definition updateTimers :: "real \<Rightarrow> game \<Rightarrow> game" where
  "updateTimers dt s =
     (if invincibleTimer s > 0 then s\<lparr>invincibleTimer := invincibleTimer s - dt\<rparr> else s)"

subsection \<open>Main update\<close>

definition update :: "canvas \<Rightarrow> real \<Rightarrow> keys \<Rightarrow> game \<Rightarrow> game" where
  "update cv dt k s =
     (let s = (if \<not> gameOver s then
                 let s = updatePlayer cv dt k s;
                     s = updateHRDrone dt s;
                     s = updatePickups dt s;
                     s = updateTimers dt s
                 in updateCamera cv s
               else updateCamera cv s)
      in updateMessages dt s)"

text \<open>
  \<^verbatim>\<open>gameLoop\<close> calls \<^verbatim>\<open>update\<close> once per animation frame with the elapsed time; a run
  of the game is the list of the frames' elapsed times and key states, oldest first.
\<close>

fun run :: "canvas \<Rightarrow> (real \<times> keys) list \<Rightarrow> game \<Rightarrow> game" where
  "run cv [] s = s"
| "run cv ((dt, k) # ts) s = run cv ts (update cv dt k s)"

subsection \<open>The simplified variant\<close>

text \<open>
  \<^verbatim>\<open>update\<close> of \<^verbatim>\<open>part_000\<close>. It declares the same \<^verbatim>\<open>gravity\<close> and \<^verbatim>\<open>groundHeight\<close>,
  checks the ground before the horizontal clamp, and clamps to the canvas width
  (the block \<^verbatim>\<open>// Keep player inside screen horizontally\<close>).
\<close>

definition keepInsideScreen :: "canvas \<Rightarrow> player \<Rightarrow> player" where
  "keepInsideScreen cv p =
     (let p = (if x p < 0 then p\<lparr>x := 0\<rparr> else p);
          p = (if x p + width p > WIDTH cv then p\<lparr>x := WIDTH cv - width p\<rparr> else p)
      in p)"

definition update_basic :: "canvas \<Rightarrow> real \<Rightarrow> keys \<Rightarrow> basic \<Rightarrow> basic" where
  "update_basic cv dt k s =
     (let p = basic.player s;
          p = horizontalMovement k p;
          p = jumping k p;
          p = applyGravity dt p;
          p = applyVelocities dt p;
          p = groundCollision cv p;
          p = keepInsideScreen cv p;
          c = basic.coffee s;
          c = (if \<not> collected c \<and> rectsOverlap p c then c\<lparr>collected := True\<rparr> else c)
      in s\<lparr>basic.player := p, basic.coffee := c\<rparr>)"

subsection \<open>Vocabulary of the statements\<close>

text \<open>
  The messages the money loop posts when it collects \<open>n\<close> pickups, starting from
  \<open>c\<close> credits: the \<open>j\<close>-th one reports \<open>c + 20 * (j + 1)\<close>.
\<close>

definition creditMessages :: "int \<Rightarrow> nat \<Rightarrow> message list" where
  "creditMessages c n =
     map (\<lambda>j. \<lparr>text = ''+20 credits (total: '' @ numberString (c + 20 * (int j + 1)) @ '')'',
               time = 7\<rparr>) [0..<n]"

text \<open>
  The contact check of a tick that starts in \<open>s\<close> compares the player as
  \<^verbatim>\<open>updatePlayer\<close> left it with the drone as its patrol step left it.
\<close>

definition contactAtCheck :: "canvas \<Rightarrow> real \<Rightarrow> keys \<Rightarrow> game \<Rightarrow> bool" where
  "contactAtCheck cv dt k s =
     rectsOverlap (player (updatePlayer cv dt k s)) (moveHRDrone dt (hrDrone s))"








subsection \<open>The initial state of \<^verbatim>\<open>main.js\<close>\<close>

definition initialPlayer :: "canvas \<Rightarrow> player" where
  "initialPlayer cv =
     \<lparr>x = 200, y = HEIGHT cv - groundHeight - 96, width = 64, height = 96, vx = 0,
      vy = 0, speed = 350, jumpForce = - 750, onGround = True\<rparr>"

definition initialCoffee :: "canvas \<Rightarrow> pickup" where
  "initialCoffee cv =
     \<lparr>x = 450, y = HEIGHT cv - groundHeight - 48, width = 32, height = 48,
      collected = False\<rparr>"

definition initialMoney :: "canvas \<Rightarrow> pickup list" where
  "initialMoney cv =
     [\<lparr>x = 700, y = HEIGHT cv - groundHeight - 40, width = 32, height = 32,
        collected = False\<rparr>,
      \<lparr>x = 1200, y = HEIGHT cv - groundHeight - 40, width = 32, height = 32,
        collected = False\<rparr>,
      \<lparr>x = 1800, y = HEIGHT cv - groundHeight - 40, width = 32, height = 32,
        collected = False\<rparr>]"

definition initialDrone :: "canvas \<Rightarrow> drone" where
  "initialDrone cv =
     \<lparr>x = 1000, y = HEIGHT cv - groundHeight - 160, width = 48, height = 48, vx = 120,
      leftBound = 950, rightBound = 1250\<rparr>"

definition initialGame :: "canvas \<Rightarrow> game" where
  "initialGame cv =
     \<lparr>world = \<lparr>world.width = 3000\<rparr>, cameraX = 0, player = initialPlayer cv,
      coffee = initialCoffee cv, moneyPickups = initialMoney cv,
      hrDrone = initialDrone cv, burnout = 0, invincibleTimer = 0, credits = 0,
      messages = [], gameOver = False, gameOverReason = []\<rparr>"

subsection \<open>The initial state of the simplified variant\<close>

definition initialBasic :: "canvas \<Rightarrow> basic" where
  "initialBasic cv =
     \<lparr>basic.player =
        \<lparr>x = WIDTH cv / 2 - 32, y = HEIGHT cv - groundHeight - 96, width = 64,
         height = 96, vx = 0, vy = 0, speed = 350, jumpForce = - 750, onGround = True\<rparr>,
      basic.coffee =
        \<lparr>x = WIDTH cv * 0.75, y = HEIGHT cv - groundHeight - 48, width = 32,
         height = 48, collected = False\<rparr>\<rparr>"

subsection \<open>Example inputs\<close>

text \<open>A canvas of 960 by 540 pixels, and the key states used in the examples.\<close>

definition exampleCanvas :: canvas where
  "exampleCanvas = \<lparr>WIDTH = 960, HEIGHT = 540\<rparr>"

definition noKeys :: keys where
  "noKeys = \<lparr>left = False, right = False, jump = False\<rparr>"

definition jumpKey :: keys where
  "jumpKey = \<lparr>left = False, right = False, jump = True\<rparr>"

definition leftAndRight :: keys where
  "leftAndRight = \<lparr>left = True, right = True, jump = False\<rparr>"



text \<open>
  A state after the end of the game: the initial state with the burnout counter at its
  maximum, the game-over flag set and two messages on screen, one of them about to
  expire.
\<close>

definition overGame :: game where
  "overGame =
     (initialGame exampleCanvas)
       \<lparr>burnout := 100, gameOver := True,
        gameOverReason := ''Burnout: you finally quit your job.'',
        messages := [\<lparr>text = ''HR Drone: unauthorized happiness detected.'', time = 1 / 128\<rparr>,
                     \<lparr>text = ''Game over. Refresh the page to try again.'', time = 7\<rparr>]\<rparr>"

text \<open>
  A running state one hit away from the end: burnout is 75, the player is in the air at
  the second credit pickup, and the drone is next to it.
\<close>

definition lastHitGame :: game where
  "lastHitGame =
     (initialGame exampleCanvas)
       \<lparr>burnout := 75,
        player := (initialPlayer exampleCanvas)\<lparr>x := 1190, y := 330, onGround := False\<rparr>,
        hrDrone := (initialDrone exampleCanvas)\<lparr>x := 1180\<rparr>\<rparr>"

text \<open>
  A running state whose drone patrols slowly at the height of the standing player, so
  that the two boxes stay in contact over several long ticks.
\<close>

definition contactGame :: game where
  "contactGame =
     (initialGame exampleCanvas)
       \<lparr>player := (initialPlayer exampleCanvas)\<lparr>x := 1000\<rparr>,
        hrDrone := (initialDrone exampleCanvas)\<lparr>y := 364, vx := 20\<rparr>\<rparr>"

section \<open>Properties\<close>

subsection \<open>Rounding to a double\<close>

lemma bits_bounds: "0 < n \<Longrightarrow> 2 ^ (bits n - 1) \<le> n \<and> n < 2 ^ bits n"
proof (induction n rule: bits.induct)
  case (1 n)
  show ?case
  proof (cases "n div 2 = 0")
    case True
    then have "n = 1" using "1.prems" by presburger
    then show ?thesis by (simp add: bits.simps)
  next
    case False
    then have pos: "0 < n div 2" by simp
    have ih: "2 ^ (bits (n div 2) - 1) \<le> n div 2 \<and> n div 2 < 2 ^ bits (n div 2)"
      using "1.IH" "1.prems" pos by simp
    have b: "bits n = Suc (bits (n div 2))" using "1.prems" by (simp add: bits.simps)
    have bpos: "0 < bits (n div 2)" using pos by (simp add: bits.simps)
    then have e: "2 ^ (bits n - 1) = 2 * (2::nat) ^ (bits (n div 2) - 1)"
      by (cases "bits (n div 2)") (simp_all add: b)
    have "2 * (2::nat) ^ (bits (n div 2) - 1) \<le> 2 * (n div 2)" using ih by simp
    also have "\<dots> \<le> n" by simp
    finally have lo': "2 * (2::nat) ^ (bits (n div 2) - 1) \<le> n" .
    have lo: "2 ^ (bits n - 1) \<le> n" unfolding e by (rule lo')
    have "n < 2 * (n div 2) + 2" by presburger
    also have "\<dots> \<le> 2 * 2 ^ bits (n div 2)" using ih by simp
    finally have hi': "n < 2 * 2 ^ bits (n div 2)" .
    have hi: "n < 2 ^ bits n" unfolding b using hi' by simp
    show ?thesis using lo hi by simp
  qed
qed

lemma pow2_pos [simp]: "0 < pow2 e"
  by (simp add: pow2_def)

lemma pow2_powr: "pow2 e = 2 powr (real_of_int e)"
  by (simp add: pow2_def powr_real_of_int field_simps)

lemma pow2_mono: "a \<le> b \<Longrightarrow> pow2 a \<le> pow2 b"
  by (simp add: pow2_powr)

lemma pow2_Suc: "pow2 (e + 1) = 2 * pow2 e"
  by (simp add: pow2_powr powr_add)

lemma binade_bounds:
  assumes "r \<noteq> 0"
  shows "pow2 (binade r) \<le> \<bar>r\<bar>" and "\<bar>r\<bar> < pow2 (binade r + 1)"
proof -
  have "pow2 (binade r) \<le> \<bar>r\<bar> \<and> \<bar>r\<bar> < pow2 (binade r + 1)"
  proof (cases "1 \<le> \<bar>r\<bar>")
    case True
    define n where "n = nat \<lfloor>\<bar>r\<bar>\<rfloor>"
    have npos: "0 < n" using True by (simp add: n_def)
    have n1: "real n \<le> \<bar>r\<bar>" and n2: "\<bar>r\<bar> < real n + 1"
      using True by (simp_all add: n_def)
    note b = bits_bounds [OF npos]
    have bpos: "0 < bits n" using npos by (simp add: bits.simps)
    have be: "binade r = int (bits n) - 1" using True by (simp add: binade_def n_def)
    have "pow2 (binade r) = 2 ^ (bits n - 1)"
      using bpos by (simp add: be pow2_def nat_diff_distrib')
    also have "\<dots> \<le> real n"
      using b of_nat_mono [of "2 ^ (bits n - 1)" n, where 'a = real] by simp
    finally have lo: "pow2 (binade r) \<le> \<bar>r\<bar>" using n1 by linarith
    have "n + 1 \<le> 2 ^ bits n" using b by simp
    then have "real n + 1 \<le> 2 ^ bits n"
      using of_nat_mono [of "n + 1" "2 ^ bits n", where 'a = real] by simp
    moreover have "pow2 (binade r + 1) = 2 ^ bits n" by (simp add: be pow2_def)
    ultimately have hi: "\<bar>r\<bar> < pow2 (binade r + 1)" using n2 by linarith
    show ?thesis using lo hi by simp
  next
    case False
    define a where "a = \<bar>r\<bar>"
    have a: "0 < a" "a < 1" using assms False by (simp_all add: a_def)
    define m where "m = nat (\<lceil>1 / a\<rceil> - 1)"
    have x1: "1 < 1 / a" using a by simp
    then have c2: "2 \<le> \<lceil>1 / a\<rceil>" by linarith
    then have mpos: "0 < m" by (simp add: m_def)
    have m1: "real m < 1 / a" and m2: "1 / a \<le> real m + 1"
      using c2 by (simp_all add: m_def) linarith+
    note b = bits_bounds [OF mpos]
    have bpos: "0 < bits m" using mpos by (simp add: bits.simps)
    have be: "binade r = - int (bits m)" using False by (simp add: binade_def m_def a_def)
    have "m + 1 \<le> 2 ^ bits m" using b by simp
    then have "real m + 1 \<le> 2 ^ bits m"
      using of_nat_mono [of "m + 1" "2 ^ bits m", where 'a = real] by simp
    then have "1 / a \<le> 2 ^ bits m" using m2 by linarith
    then have "1 / 2 ^ bits m \<le> a" using a by (simp add: field_simps)
    moreover have "pow2 (binade r) = 1 / 2 ^ bits m" using bpos by (simp add: be pow2_def)
    ultimately have lo: "pow2 (binade r) \<le> \<bar>r\<bar>" by (simp add: a_def)
    have "(2::real) ^ (bits m - 1) \<le> real m"
      using b of_nat_mono [of "2 ^ (bits m - 1)" m, where 'a = real] by simp
    then have "2 ^ (bits m - 1) < 1 / a" using m1 by linarith
    then have "a < 1 / 2 ^ (bits m - 1)" using a by (simp add: field_simps)
    moreover have "pow2 (binade r + 1) = 1 / 2 ^ (bits m - 1)"
      using bpos by (cases "bits m") (simp_all add: be pow2_def)
    ultimately have hi: "\<bar>r\<bar> < pow2 (binade r + 1)" by (simp add: a_def)
    show ?thesis using lo hi by simp
  qed
  then show "pow2 (binade r) \<le> \<bar>r\<bar>" and "\<bar>r\<bar> < pow2 (binade r + 1)" by simp_all
qed

lemma roundHalfEven_bounds: "of_int (roundHalfEven q) \<le> q + 1" "q - 1 \<le> of_int (roundHalfEven q)"
  by (simp_all add: roundHalfEven_def Let_def) linarith+

lemma roundHalfEven_le: "roundHalfEven q \<le> \<lfloor>q\<rfloor> + 1"
  by (simp add: roundHalfEven_def Let_def)

lemma roundHalfEven_neg: "q \<le> - 1 \<Longrightarrow> roundHalfEven q \<le> - 1"
proof (cases "of_int \<lfloor>q\<rfloor> = q")
  case True
  assume "q \<le> - 1"
  then have "\<lfloor>q\<rfloor> \<le> - 1" by linarith
  moreover have "q - of_int \<lfloor>q\<rfloor> = 0" using True by linarith
  ultimately show ?thesis by (simp add: roundHalfEven_def Let_def)
next
  case False
  assume "q \<le> - 1"
  then have "\<lfloor>q\<rfloor> \<le> - 2" using False by linarith
  then show ?thesis using roundHalfEven_le [of q] by linarith
qed

lemmas roundDouble_eval =
  roundDouble_def binade_def bits.simps pow2_def roundHalfEven_def Let_def

lemma roundDouble_pos_iff: "0 < roundDouble r \<longleftrightarrow> 0 < r"
proof (cases "r = 0")
  case True
  then show ?thesis by (simp add: roundDouble_def)
next
  case False
  define u where "u = pow2 (binade r - 52)"
  have u: "0 < u" by (simp add: u_def)
  have "u \<le> pow2 (binade r)" unfolding u_def by (rule pow2_mono) simp
  then have ur: "u \<le> \<bar>r\<bar>" using binade_bounds(1) [OF False] by simp
  have rd: "roundDouble r = of_int (roundHalfEven (r / u)) * u"
    using False by (simp add: roundDouble_def u_def Let_def)
  show ?thesis
  proof (cases "0 < r")
    case True
    then have "1 \<le> r / u" using ur u by (simp add: field_simps)
    then have "1 \<le> \<lfloor>r / u\<rfloor>" by linarith
    then have "1 \<le> roundHalfEven (r / u)" by (simp add: roundHalfEven_def Let_def)
    then have "0 < (of_int (roundHalfEven (r / u)) :: real)" by simp
    then show ?thesis using True u by (simp add: rd)
  next
    case neg: False
    then have "r < 0" using False by simp
    then have "r / u \<le> - 1" using ur u by (simp add: field_simps)
    then have "roundHalfEven (r / u) \<le> 0" using roundHalfEven_neg by force
    then have "(of_int (roundHalfEven (r / u)) :: real) \<le> 0" by simp
    then have "roundDouble r \<le> 0" using u by (simp add: rd mult_le_0_iff)
    then show ?thesis using neg by simp
  qed
qed

subsection \<open>The message loop is a filter\<close>

lemma removeExpired_take:
  "i \<le> length ms \<Longrightarrow>
   removeExpired i ms = filter (\<lambda>m. \<not> time m \<le> 0) (take i ms) @ drop i ms"
proof (induction i arbitrary: ms)
  case 0
  then show ?case by simp
next
  case (Suc i)
  then have lt: "i < length ms" by simp
  show ?case
  proof (cases "time (ms ! i) \<le> 0")
    case True
    have len: "i \<le> length (take i ms @ drop (Suc i) ms)" using lt by simp
    have "removeExpired (Suc i) ms = removeExpired i (take i ms @ drop (Suc i) ms)"
      using True by simp
    also have "\<dots> = filter (\<lambda>m. \<not> time m \<le> 0) (take i ms) @ drop (Suc i) ms"
      using Suc.IH [OF len] lt by simp
    also have "\<dots> = filter (\<lambda>m. \<not> time m \<le> 0) (take (Suc i) ms) @ drop (Suc i) ms"
      using True lt by (simp add: take_Suc_conv_app_nth)
    finally show ?thesis .
  next
    case False
    have "removeExpired (Suc i) ms = removeExpired i ms" using False by simp
    also have "\<dots> = filter (\<lambda>m. \<not> time m \<le> 0) (take i ms) @ drop i ms"
      using Suc.IH [of ms] lt by simp
    also have "\<dots> = filter (\<lambda>m. \<not> time m \<le> 0) (take (Suc i) ms) @ drop (Suc i) ms"
      using False lt by (simp add: take_Suc_conv_app_nth Cons_nth_drop_Suc)
    finally show ?thesis .
  qed
qed

lemma tickMessages_filter:
  "tickMessages dt ms =
     map (\<lambda>m. m\<lparr>time := roundDouble (time m - dt)\<rparr>) (filter (\<lambda>m. dt < time m) ms)"
  by (simp add: tickMessages_def Let_def removeExpired_take filter_map o_def not_le
      roundDouble_pos_iff)

subsection \<open>What each function leaves alone\<close>

text \<open>
  Every update function writes a few of the module's variables; the other fields of the
  state come back as they were.
\<close>

lemma showMessage_fields [simp]:
  "world (showMessage t s) = world s"
  "cameraX (showMessage t s) = cameraX s"
  "player (showMessage t s) = player s"
  "coffee (showMessage t s) = coffee s"
  "moneyPickups (showMessage t s) = moneyPickups s"
  "hrDrone (showMessage t s) = hrDrone s"
  "burnout (showMessage t s) = burnout s"
  "invincibleTimer (showMessage t s) = invincibleTimer s"
  "credits (showMessage t s) = credits s"
  "gameOver (showMessage t s) = gameOver s"
  "gameOverReason (showMessage t s) = gameOverReason s"
  "messages (showMessage t s) = messages s @ [\<lparr>text = t, time = 7\<rparr>]"
  by (simp_all add: showMessage_def)

lemma updateMessages_fields [simp]:
  "world (updateMessages dt s) = world s"
  "cameraX (updateMessages dt s) = cameraX s"
  "player (updateMessages dt s) = player s"
  "coffee (updateMessages dt s) = coffee s"
  "moneyPickups (updateMessages dt s) = moneyPickups s"
  "hrDrone (updateMessages dt s) = hrDrone s"
  "burnout (updateMessages dt s) = burnout s"
  "invincibleTimer (updateMessages dt s) = invincibleTimer s"
  "credits (updateMessages dt s) = credits s"
  "gameOver (updateMessages dt s) = gameOver s"
  "gameOverReason (updateMessages dt s) = gameOverReason s"
  "messages (updateMessages dt s) = tickMessages dt (messages s)"
  by (simp_all add: updateMessages_def)

lemma updateCamera_fields [simp]:
  "world (updateCamera cv s) = world s"
  "player (updateCamera cv s) = player s"
  "coffee (updateCamera cv s) = coffee s"
  "moneyPickups (updateCamera cv s) = moneyPickups s"
  "hrDrone (updateCamera cv s) = hrDrone s"
  "burnout (updateCamera cv s) = burnout s"
  "invincibleTimer (updateCamera cv s) = invincibleTimer s"
  "credits (updateCamera cv s) = credits s"
  "gameOver (updateCamera cv s) = gameOver s"
  "gameOverReason (updateCamera cv s) = gameOverReason s"
  "messages (updateCamera cv s) = messages s"
  by (simp_all add: updateCamera_def Let_def)

lemma updateTimers_fields [simp]:
  "world (updateTimers dt s) = world s"
  "cameraX (updateTimers dt s) = cameraX s"
  "player (updateTimers dt s) = player s"
  "coffee (updateTimers dt s) = coffee s"
  "moneyPickups (updateTimers dt s) = moneyPickups s"
  "hrDrone (updateTimers dt s) = hrDrone s"
  "burnout (updateTimers dt s) = burnout s"
  "credits (updateTimers dt s) = credits s"
  "gameOver (updateTimers dt s) = gameOver s"
  "gameOverReason (updateTimers dt s) = gameOverReason s"
  "messages (updateTimers dt s) = messages s"
  by (simp_all add: updateTimers_def)

lemma triggerGameOver_fields [simp]:
  "world (triggerGameOver r s) = world s"
  "cameraX (triggerGameOver r s) = cameraX s"
  "player (triggerGameOver r s) = player s"
  "coffee (triggerGameOver r s) = coffee s"
  "moneyPickups (triggerGameOver r s) = moneyPickups s"
  "hrDrone (triggerGameOver r s) = hrDrone s"
  "burnout (triggerGameOver r s) = burnout s"
  "invincibleTimer (triggerGameOver r s) = invincibleTimer s"
  "credits (triggerGameOver r s) = credits s"
  "gameOver (triggerGameOver r s) = True"
  "gameOverReason (triggerGameOver r s) = r"
  by (simp_all add: triggerGameOver_def)

lemma hitPlayer_fields [simp]:
  "world (hitPlayer s) = world s"
  "cameraX (hitPlayer s) = cameraX s"
  "player (hitPlayer s) = player s"
  "coffee (hitPlayer s) = coffee s"
  "moneyPickups (hitPlayer s) = moneyPickups s"
  "hrDrone (hitPlayer s) = hrDrone s"
  "credits (hitPlayer s) = credits s"
  by (simp_all add: hitPlayer_def Let_def)

lemma updateHRDrone_fields [simp]:
  "world (updateHRDrone dt s) = world s"
  "cameraX (updateHRDrone dt s) = cameraX s"
  "player (updateHRDrone dt s) = player s"
  "coffee (updateHRDrone dt s) = coffee s"
  "moneyPickups (updateHRDrone dt s) = moneyPickups s"
  "credits (updateHRDrone dt s) = credits s"
  by (simp_all add: updateHRDrone_def)

lemma horizontalMovement_fields [simp]:
  "x (horizontalMovement k p) = x p"
  "y (horizontalMovement k p) = y p"
  "width (horizontalMovement k p) = width p"
  "height (horizontalMovement k p) = height p"
  "vx (horizontalMovement k p) =
     (if right k then speed p else if left k then - speed p else 0)"
  "vy (horizontalMovement k p) = vy p"
  "speed (horizontalMovement k p) = speed p"
  "jumpForce (horizontalMovement k p) = jumpForce p"
  "onGround (horizontalMovement k p) = onGround p"
  by (simp_all add: horizontalMovement_def Let_def)

lemma jumping_fields [simp]:
  "x (jumping k p) = x p"
  "y (jumping k p) = y p"
  "width (jumping k p) = width p"
  "height (jumping k p) = height p"
  "vx (jumping k p) = vx p"
  "vy (jumping k p) = (if jump k \<and> onGround p then jumpForce p else vy p)"
  "speed (jumping k p) = speed p"
  "jumpForce (jumping k p) = jumpForce p"
  "onGround (jumping k p) = (onGround p \<and> \<not> jump k)"
  by (auto simp add: jumping_def)

lemma applyGravity_fields [simp]:
  "x (applyGravity dt p) = x p"
  "y (applyGravity dt p) = y p"
  "width (applyGravity dt p) = width p"
  "height (applyGravity dt p) = height p"
  "vx (applyGravity dt p) = vx p"
  "vy (applyGravity dt p) = vy p + gravity * dt"
  "speed (applyGravity dt p) = speed p"
  "jumpForce (applyGravity dt p) = jumpForce p"
  "onGround (applyGravity dt p) = onGround p"
  by (simp_all add: applyGravity_def)

lemma applyVelocities_fields [simp]:
  "x (applyVelocities dt p) = x p + vx p * dt"
  "y (applyVelocities dt p) = y p + vy p * dt"
  "width (applyVelocities dt p) = width p"
  "height (applyVelocities dt p) = height p"
  "vx (applyVelocities dt p) = vx p"
  "vy (applyVelocities dt p) = vy p"
  "speed (applyVelocities dt p) = speed p"
  "jumpForce (applyVelocities dt p) = jumpForce p"
  "onGround (applyVelocities dt p) = onGround p"
  by (simp_all add: applyVelocities_def Let_def)

lemma clampToWorldBounds_fields [simp]:
  "y (clampToWorldBounds w p) = y p"
  "width (clampToWorldBounds w p) = width p"
  "height (clampToWorldBounds w p) = height p"
  "vx (clampToWorldBounds w p) = vx p"
  "vy (clampToWorldBounds w p) = vy p"
  "speed (clampToWorldBounds w p) = speed p"
  "jumpForce (clampToWorldBounds w p) = jumpForce p"
  "onGround (clampToWorldBounds w p) = onGround p"
  by (simp_all add: clampToWorldBounds_def Let_def)

lemma keepInsideScreen_fields [simp]:
  "y (keepInsideScreen cv p) = y p"
  "width (keepInsideScreen cv p) = width p"
  "height (keepInsideScreen cv p) = height p"
  "vx (keepInsideScreen cv p) = vx p"
  "vy (keepInsideScreen cv p) = vy p"
  "speed (keepInsideScreen cv p) = speed p"
  "jumpForce (keepInsideScreen cv p) = jumpForce p"
  "onGround (keepInsideScreen cv p) = onGround p"
  by (simp_all add: keepInsideScreen_def Let_def)

lemma groundCollision_fields [simp]:
  "x (groundCollision cv p) = x p"
  "width (groundCollision cv p) = width p"
  "height (groundCollision cv p) = height p"
  "vx (groundCollision cv p) = vx p"
  "speed (groundCollision cv p) = speed p"
  "jumpForce (groundCollision cv p) = jumpForce p"
  by (simp_all add: groundCollision_def Let_def)

lemma groundCollision_vertical:
  "y (groundCollision cv p) =
     (if y p > HEIGHT cv - groundHeight - height p
      then HEIGHT cv - groundHeight - height p else y p)"
  "vy (groundCollision cv p) =
     (if y p > HEIGHT cv - groundHeight - height p then 0 else vy p)"
  "onGround (groundCollision cv p) =
     (y p > HEIGHT cv - groundHeight - height p \<or> onGround p)"
  by (simp_all add: groundCollision_def Let_def)

lemma clampToWorldBounds_x:
  "x (clampToWorldBounds w p) =
     (if (if x p < 0 then 0 else x p) + width p > world.width w
      then world.width w - width p
      else if x p < 0 then 0 else x p)"
  by (simp add: clampToWorldBounds_def Let_def)

lemma updatePlayer_fields [simp]:
  "world (updatePlayer cv dt k s) = world s"
  "cameraX (updatePlayer cv dt k s) = cameraX s"
  "coffee (updatePlayer cv dt k s) = coffee s"
  "moneyPickups (updatePlayer cv dt k s) = moneyPickups s"
  "hrDrone (updatePlayer cv dt k s) = hrDrone s"
  "burnout (updatePlayer cv dt k s) = burnout s"
  "invincibleTimer (updatePlayer cv dt k s) = invincibleTimer s"
  "credits (updatePlayer cv dt k s) = credits s"
  "gameOver (updatePlayer cv dt k s) = gameOver s"
  "gameOverReason (updatePlayer cv dt k s) = gameOverReason s"
  "messages (updatePlayer cv dt k s) = messages s"
  by (simp_all add: updatePlayer_def Let_def)

lemma collectMoney_fields [simp]:
  "world (snd (collectMoney ms s)) = world s"
  "cameraX (snd (collectMoney ms s)) = cameraX s"
  "player (snd (collectMoney ms s)) = player s"
  "coffee (snd (collectMoney ms s)) = coffee s"
  "moneyPickups (snd (collectMoney ms s)) = moneyPickups s"
  "hrDrone (snd (collectMoney ms s)) = hrDrone s"
  "burnout (snd (collectMoney ms s)) = burnout s"
  "invincibleTimer (snd (collectMoney ms s)) = invincibleTimer s"
  "gameOver (snd (collectMoney ms s)) = gameOver s"
  "gameOverReason (snd (collectMoney ms s)) = gameOverReason s"
  by (induction ms s rule: collectMoney.induct; simp add: Let_def split_beta)+

lemma updatePickups_fields [simp]:
  "world (updatePickups dt s) = world s"
  "cameraX (updatePickups dt s) = cameraX s"
  "player (updatePickups dt s) = player s"
  "hrDrone (updatePickups dt s) = hrDrone s"
  "burnout (updatePickups dt s) = burnout s"
  "invincibleTimer (updatePickups dt s) = invincibleTimer s"
  "gameOver (updatePickups dt s) = gameOver s"
  "gameOverReason (updatePickups dt s) = gameOverReason s"
  by (simp_all add: updatePickups_def Let_def split_beta)

subsection \<open>The composition of a tick\<close>

lemma update_running:
  "\<not> gameOver s \<Longrightarrow>
   update cv dt k s =
     updateMessages dt (updateCamera cv (updateTimers dt (updatePickups dt
       (updateHRDrone dt (updatePlayer cv dt k s)))))"
  by (simp add: update_def Let_def)

lemma update_over:
  "gameOver s \<Longrightarrow> update cv dt k s = updateMessages dt (updateCamera cv s)"
  by (simp add: update_def)

lemma player_update_running:
  "\<not> gameOver s \<Longrightarrow> player (update cv dt k s) = player (updatePlayer cv dt k s)"
  by (simp add: update_running)

lemma player_updatePlayer:
  "\<not> gameOver s \<Longrightarrow>
   player (updatePlayer cv dt k s) =
     groundCollision cv (clampToWorldBounds (world s) (applyVelocities dt
       (applyGravity dt (jumping k (horizontalMovement k (player s))))))"
  by (simp add: updatePlayer_def Let_def)

lemma player_update_basic:
  "basic.player (update_basic cv dt k b) =
     keepInsideScreen cv (groundCollision cv (applyVelocities dt
       (applyGravity dt (jumping k (horizontalMovement k (basic.player b))))))"
  by (simp add: update_basic_def Let_def)

subsection \<open>The pickup loop\<close>

lemma creditMessages_0 [simp]: "creditMessages c 0 = []"
  by (simp add: creditMessages_def)









subsection \<open>The contact check\<close>

lemma hitPlayer_burnout:
  "burnout (hitPlayer s) =
     (if \<not> gameOver s \<and> rectsOverlap (player s) (hrDrone s) \<and> invincibleTimer s \<le> 0
      then (if burnout s + 25 \<ge> burnoutMax then burnoutMax else burnout s + 25)
      else burnout s)"
  by (simp add: hitPlayer_def Let_def)

lemma hitPlayer_gameOver:
  "gameOver (hitPlayer s) =
     (gameOver s \<or> rectsOverlap (player s) (hrDrone s) \<and> invincibleTimer s \<le> 0 \<and>
        burnout s + 25 \<ge> burnoutMax)"
  by (simp add: hitPlayer_def Let_def)

lemma hitPlayer_invincibleTimer:
  "invincibleTimer (hitPlayer s) =
     (if \<not> gameOver s \<and> rectsOverlap (player s) (hrDrone s) \<and> invincibleTimer s \<le> 0
      then 1 else invincibleTimer s)"
  by (simp add: hitPlayer_def Let_def)

lemma update_burnout:
  "\<not> gameOver s \<Longrightarrow>
   burnout (update cv dt k s) =
     (if contactAtCheck cv dt k s \<and> invincibleTimer s \<le> 0
      then (if burnout s + 25 \<ge> burnoutMax then burnoutMax else burnout s + 25)
      else burnout s)"
  by (simp add: update_running updateHRDrone_def hitPlayer_burnout contactAtCheck_def)

lemma update_gameOver:
  "\<not> gameOver s \<Longrightarrow>
   gameOver (update cv dt k s) =
     (contactAtCheck cv dt k s \<and> invincibleTimer s \<le> 0 \<and> burnout s + 25 \<ge> burnoutMax)"
  by (simp add: update_running updateHRDrone_def hitPlayer_gameOver contactAtCheck_def)

lemma update_invincibleTimer:
  "\<not> gameOver s \<Longrightarrow>
   invincibleTimer (update cv dt k s) =
     (if contactAtCheck cv dt k s \<and> invincibleTimer s \<le> 0 then 1 - dt
      else if invincibleTimer s > 0 then invincibleTimer s - dt else invincibleTimer s)"
  by (simp add: update_running updateTimers_def updateHRDrone_def hitPlayer_invincibleTimer
      contactAtCheck_def)

subsection \<open>After the end of the game\<close>

lemma update_over_fields:
  assumes "gameOver s"
  shows "gameOver (update cv dt k s)"
    and "burnout (update cv dt k s) = burnout s"
    and "player (update cv dt k s) = player s"
    and "hrDrone (update cv dt k s) = hrDrone s"
    and "world (update cv dt k s) = world s"
  using assms by (simp_all add: update_over)

lemma run_over:
  "gameOver s \<Longrightarrow> gameOver (run cv ts s) \<and> burnout (run cv ts s) = burnout s"
proof (induction ts arbitrary: s)
  case Nil
  then show ?case by simp
next
  case (Cons t ts)
  obtain dt k where t: "t = (dt, k)" by (cases t)
  show ?case using Cons.IH [of "update cv dt k s"] Cons.prems
    by (simp add: t update_over_fields)
qed

subsection \<open>Horizontal bounds\<close>

lemma moveHRDrone_fields [simp]:
  "y (moveHRDrone dt h) = y h"
  "width (moveHRDrone dt h) = width h"
  "height (moveHRDrone dt h) = height h"
  "leftBound (moveHRDrone dt h) = leftBound h"
  "rightBound (moveHRDrone dt h) = rightBound h"
  by (simp_all add: moveHRDrone_def Let_def)

lemma moveHRDrone_x_bounds:
  assumes "width h \<le> rightBound h - leftBound h"
  shows "leftBound h \<le> x (moveHRDrone dt h)"
    and "x (moveHRDrone dt h) \<le> rightBound h - width h"
  using assms by (auto simp add: moveHRDrone_def Let_def)

lemma clampToWorldBounds_x_bounds:
  assumes "width p \<le> world.width w"
  shows "0 \<le> x (clampToWorldBounds w p)"
    and "x (clampToWorldBounds w p) \<le> world.width w - width p"
  using assms by (auto simp add: clampToWorldBounds_x)

lemma hrDrone_updateHRDrone:
  "\<not> gameOver s \<Longrightarrow> hrDrone (updateHRDrone dt s) = moveHRDrone dt (hrDrone s)"
  by (simp add: updateHRDrone_def)

lemma hrDrone_update_running:
  "\<not> gameOver s \<Longrightarrow> hrDrone (update cv dt k s) = moveHRDrone dt (hrDrone s)"
  by (simp add: update_running hrDrone_updateHRDrone)

lemma world_update [simp]: "world (update cv dt k s) = world s"
  by (cases "gameOver s") (simp_all add: update_running update_over)

lemma update_sizes:
  "width (player (update cv dt k s)) = width (player s)"
  "width (hrDrone (update cv dt k s)) = width (hrDrone s)"
  "leftBound (hrDrone (update cv dt k s)) = leftBound (hrDrone s)"
  "rightBound (hrDrone (update cv dt k s)) = rightBound (hrDrone s)"
  by (cases "gameOver s";
      simp add: update_over player_update_running player_updatePlayer hrDrone_update_running)+

lemma update_keeps_bounds:
  assumes "width (player s) \<le> world.width (world s)"
    and "width (hrDrone s) \<le> rightBound (hrDrone s) - leftBound (hrDrone s)"
    and "0 \<le> x (player s)"
    and "x (player s) \<le> world.width (world s) - width (player s)"
    and "leftBound (hrDrone s) \<le> x (hrDrone s)"
    and "x (hrDrone s) \<le> rightBound (hrDrone s) - width (hrDrone s)"
  shows "0 \<le> x (player (update cv dt k s))"
    and "x (player (update cv dt k s)) \<le> world.width (world s) - width (player s)"
    and "leftBound (hrDrone s) \<le> x (hrDrone (update cv dt k s))"
    and "x (hrDrone (update cv dt k s)) \<le> rightBound (hrDrone s) - width (hrDrone s)"
proof -
  show "0 \<le> x (player (update cv dt k s))"
    using assms clampToWorldBounds_x_bounds(1)
            [of "applyVelocities dt (applyGravity dt (jumping k
                   (horizontalMovement k (player s))))" "world s"]
    by (cases "gameOver s")
       (simp_all add: update_over player_update_running player_updatePlayer)
  show "x (player (update cv dt k s)) \<le> world.width (world s) - width (player s)"
    using assms clampToWorldBounds_x_bounds(2)
            [of "applyVelocities dt (applyGravity dt (jumping k
                   (horizontalMovement k (player s))))" "world s"]
    by (cases "gameOver s")
       (simp_all add: update_over player_update_running player_updatePlayer)
  show "leftBound (hrDrone s) \<le> x (hrDrone (update cv dt k s))"
    using assms moveHRDrone_x_bounds(1) [of "hrDrone s" dt]
    by (cases "gameOver s") (simp_all add: update_over hrDrone_update_running)
  show "x (hrDrone (update cv dt k s)) \<le> rightBound (hrDrone s) - width (hrDrone s)"
    using assms moveHRDrone_x_bounds(2) [of "hrDrone s" dt]
    by (cases "gameOver s") (simp_all add: update_over hrDrone_update_running)
qed

subsection \<open>Messages over several ticks\<close>










subsection \<open>Two runs of the message timer\<close>






subsection \<open>No pickup is left under the player\<close>

text \<open>
  \<^verbatim>\<open>updatePickups\<close> collects everything the player overlaps, and after the end of the
  game neither the player nor a pickup changes. So from a running state onwards no tick
  ends with an uncollected pickup under the player, and a tick that starts after the end
  of the game never finds one.
\<close>

lemma rectsOverlap_collected [simp]:
  "rectsOverlap p (m\<lparr>collected := c\<rparr>) = rectsOverlap p m"
  by (simp add: rectsOverlap_def)







subsection \<open>The example states, evaluated\<close>

lemma lastHit_player:
  "player (updatePlayer exampleCanvas 0.016 noKeys lastHitGame) =
     (initialPlayer exampleCanvas)\<lparr>x := 1190, y := 330.512, vy := 32, onGround := False\<rparr>"
  apply (simp add: player_updatePlayer lastHitGame_def initialGame_def)
  apply (simp add: groundCollision_def applyVelocities_def applyGravity_def jumping_def horizontalMovement_def clampToWorldBounds_def Let_def noKeys_def initialPlayer_def gravity_def groundHeight_def exampleCanvas_def)
  done

lemma lastHit_drone:
  "moveHRDrone 0.016 (hrDrone lastHitGame) = (initialDrone exampleCanvas)\<lparr>x := 1181.92\<rparr>"
  by (simp add: moveHRDrone_def Let_def lastHitGame_def initialGame_def initialDrone_def)

lemma lastHit_contact: "contactAtCheck exampleCanvas 0.016 noKeys lastHitGame"
  unfolding contactAtCheck_def lastHit_player lastHit_drone
  by (simp add: rectsOverlap_def initialPlayer_def initialDrone_def exampleCanvas_def
      groundHeight_def)

lemma lastHit_facts:
  "\<not> gameOver lastHitGame" "burnout lastHitGame = 75" "invincibleTimer lastHitGame = 0"
  "credits lastHitGame = 0" "messages lastHitGame = []"
  "moneyPickups lastHitGame = initialMoney exampleCanvas"
  "coffee lastHitGame = initialCoffee exampleCanvas"
  by (simp_all add: lastHitGame_def initialGame_def)

lemma lastHit_update:
  "gameOver (update exampleCanvas 0.016 noKeys lastHitGame)"
  "burnout (update exampleCanvas 0.016 noKeys lastHitGame) = 100"
  using lastHit_contact
  by (simp_all add: update_gameOver update_burnout lastHit_facts burnoutMax_def)

lemma contact_facts:
  "\<not> gameOver contactGame" "burnout contactGame = 0" "invincibleTimer contactGame = 0"
  by (simp_all add: contactGame_def initialGame_def)

lemma standing_player:
  assumes "\<not> gameOver s" and "player s = (initialPlayer exampleCanvas)\<lparr>x := 1000\<rparr>"
    and w: "world.width (world s) = 3000"
  shows "player (update exampleCanvas 0.5 noKeys s) = (initialPlayer exampleCanvas)\<lparr>x := 1000\<rparr>"
  unfolding player_update_running [OF assms(1)] player_updatePlayer [OF assms(1)] assms(2)
  by (simp add: groundCollision_def applyVelocities_def applyGravity_def jumping_def
      horizontalMovement_def clampToWorldBounds_def Let_def noKeys_def initialPlayer_def
      gravity_def groundHeight_def exampleCanvas_def w)

lemma standing_player':
  assumes "\<not> gameOver s" and "player s = (initialPlayer exampleCanvas)\<lparr>x := 1000\<rparr>"
    and "world.width (world s) = 3000"
  shows "player (updatePlayer exampleCanvas 0.5 noKeys s) = (initialPlayer exampleCanvas)\<lparr>x := 1000\<rparr>"
  using standing_player [OF assms] assms(1) by (simp add: player_update_running)

lemma slow_drone:
  assumes "hrDrone s = (initialDrone exampleCanvas)\<lparr>x := a, y := 364, vx := 20\<rparr>"
    and "950 \<le> a" and "a \<le> 1100"
  shows "moveHRDrone 0.5 (hrDrone s) = (initialDrone exampleCanvas)\<lparr>x := a + 10, y := 364, vx := 20\<rparr>"
  unfolding assms(1) using assms(2,3)
  by (simp add: moveHRDrone_def Let_def initialDrone_def)

lemma contact_when_near:
  assumes "\<not> gameOver s" and "player s = (initialPlayer exampleCanvas)\<lparr>x := 1000\<rparr>"
    and w: "world.width (world s) = 3000"
    and "hrDrone s = (initialDrone exampleCanvas)\<lparr>x := a, y := 364, vx := 20\<rparr>"
    and "950 \<le> a" and "a \<le> 1050"
  shows "contactAtCheck exampleCanvas 0.5 noKeys s"
proof -
  have "a \<le> 1100" using assms(6) by simp
  note d = slow_drone [OF assms(4) assms(5) this]
  show ?thesis
    unfolding contactAtCheck_def standing_player' [OF assms(1,2) w] d
    using assms(5,6)
    by (simp add: rectsOverlap_def initialPlayer_def initialDrone_def exampleCanvas_def
      groundHeight_def)
qed

section \<open>The claims\<close>



text \<open>
  C2. A tick that starts after the end of the game changes two variables only: the
  camera offset is recomputed by \<^verbatim>\<open>updateCamera\<close> and the messages are decremented by
  \<open>dt\<close> (a double-precision subtraction) and pruned. The player, the drone, the coffee, every credit pickup, \<open>burnout\<close>,
  \<open>credits\<close> and \<open>invincibleTimer\<close> are as before, and the game is still over.
\<close>

theorem game_over_tick_frozen:
  assumes "gameOver s"
  shows "update cv dt k s =
           s\<lparr>cameraX := cameraX (updateCamera cv s),
             messages := map (\<lambda>m. m\<lparr>time := roundDouble (time m - dt)\<rparr>)
                           (filter (\<lambda>m. dt < time m) (messages s))\<rparr> \<and>
         player (update cv dt k s) = player s \<and>
         hrDrone (update cv dt k s) = hrDrone s \<and>
         coffee (update cv dt k s) = coffee s \<and>
         moneyPickups (update cv dt k s) = moneyPickups s \<and>
         burnout (update cv dt k s) = burnout s \<and>
         credits (update cv dt k s) = credits s \<and>
         invincibleTimer (update cv dt k s) = invincibleTimer s \<and>
         gameOver (update cv dt k s)"
  using assms
  by (simp add: update_over updateMessages_def updateCamera_def Let_def tickMessages_filter)

theorem game_over_tick_frozen_witness:
  "gameOver overGame \<and>
   update exampleCanvas (1 / 64) leftAndRight overGame =
     overGame\<lparr>cameraX := 0,
       messages := [\<lparr>text = ''Game over. Refresh the page to try again.'',
                     time = 447 / 64\<rparr>]\<rparr> \<and>
   player (update exampleCanvas (1 / 64) leftAndRight overGame) = player overGame \<and>
   burnout (update exampleCanvas (1 / 64) leftAndRight overGame) = 100"
proof -
  have r: "roundDouble (447 / 64) = 447 / 64"
    by (simp add: roundDouble_eval)
  show ?thesis
    using game_over_tick_frozen [of overGame exampleCanvas "1 / 64" leftAndRight]
    by (simp add: overGame_def initialGame_def initialPlayer_def exampleCanvas_def
        updateCamera_def Let_def r)
qed

text \<open>
  C3, as the code has it. On a running tick with the player on the ground and the jump
  intent held, gravity is added in the same tick, after the jump: the vertical velocity
  after the tick is \<open>jumpForce + gravity * dt\<close> and \<open>onGround\<close> is false, provided the
  player does not end the tick below the floor line (otherwise the ground block puts it
  back on the floor). At \<open>dt = 0.016\<close> with the constants of the source that is \<open>-718\<close>.
\<close>

theorem jump_tick_gravity_accrues:
  assumes "\<not> gameOver s" and "onGround (player s)" and "jump k"
    and "y (player s) + (jumpForce (player s) + gravity * dt) * dt
           \<le> HEIGHT cv - groundHeight - height (player s)"
  shows "vy (player (update cv dt k s)) = jumpForce (player s) + gravity * dt \<and>
         \<not> onGround (player (update cv dt k s))"
  using assms
  by (simp add: player_update_running player_updatePlayer groundCollision_vertical)

text \<open>
  From the initial state, one tick of \<open>0.016\<close> seconds with the jump intent leaves the
  vertical velocity at \<open>-718\<close>, not at \<open>jumpForce = -750\<close>.
\<close>

theorem jump_tick_vy_counterexample:
  "\<not> gameOver (initialGame exampleCanvas) \<and>
   onGround (player (initialGame exampleCanvas)) \<and>
   jump jumpKey \<and>
   vy (player (update exampleCanvas 0.016 jumpKey (initialGame exampleCanvas))) = - 718 \<and>
   jumpForce (player (initialGame exampleCanvas)) = - 750 \<and>
   vy (player (update exampleCanvas 0.016 jumpKey (initialGame exampleCanvas)))
     \<noteq> jumpForce (player (initialGame exampleCanvas))"
  by (simp add: player_update_running player_updatePlayer groundCollision_vertical
      initialGame_def initialPlayer_def jumpKey_def gravity_def groundHeight_def
      exampleCanvas_def)

theorem jump_tick_gravity_accrues_witness:
  "\<not> gameOver (initialGame exampleCanvas) \<and>
   onGround (player (initialGame exampleCanvas)) \<and>
   jump jumpKey \<and>
   y (player (initialGame exampleCanvas))
     + (jumpForce (player (initialGame exampleCanvas)) + gravity * 0.016) * 0.016
     \<le> HEIGHT exampleCanvas - groundHeight - height (player (initialGame exampleCanvas)) \<and>
   vy (player (update exampleCanvas 0.016 jumpKey (initialGame exampleCanvas))) = - 718 \<and>
   \<not> onGround (player (update exampleCanvas 0.016 jumpKey (initialGame exampleCanvas)))"
  using jump_tick_gravity_accrues
          [of "initialGame exampleCanvas" jumpKey "0.016" exampleCanvas]
  by (simp add: initialGame_def initialPlayer_def jumpKey_def gravity_def groundHeight_def
      exampleCanvas_def)

text \<open>
  C4. From a running state with \<open>invincibleTimer = 0\<close> and \<open>burnout = 0\<close>, three
  consecutive ticks of \<open>0.5\<close> seconds whose contact checks all find the player and the
  drone overlapping apply damage on the first and the third tick only: \<open>burnout\<close> is
  25 after the first tick, still 25 after the second and 50 after the third.
\<close>

theorem damage_once_per_grace_window:
  assumes "\<not> gameOver s" and "invincibleTimer s = 0" and "burnout s = 0"
    and s1: "s1 = update cv 0.5 k1 s"
    and s2: "s2 = update cv 0.5 k2 s1"
    and s3: "s3 = update cv 0.5 k3 s2"
    and "contactAtCheck cv 0.5 k1 s"
    and "contactAtCheck cv 0.5 k2 s1"
    and "contactAtCheck cv 0.5 k3 s2"
  shows "burnout s1 = 25 \<and> burnout s2 = 25 \<and> burnout s3 = 50"
proof -
  have r1: "\<not> gameOver s1" "burnout s1 = 25" "invincibleTimer s1 = 0.5"
    using assms
    by (simp_all add: update_gameOver update_burnout update_invincibleTimer burnoutMax_def)
  have r2: "\<not> gameOver s2" "burnout s2 = 25" "invincibleTimer s2 = 0"
    using r1 assms
    by (simp_all add: update_gameOver update_burnout update_invincibleTimer burnoutMax_def)
  have r3: "burnout s3 = 50"
    using r2 assms
    by (simp_all add: update_gameOver update_burnout update_invincibleTimer burnoutMax_def)
  show ?thesis using r1 r2 r3 by simp
qed

theorem damage_once_per_grace_window_witness:
  "\<not> gameOver contactGame \<and> invincibleTimer contactGame = 0 \<and> burnout contactGame = 0 \<and>
   contactAtCheck exampleCanvas 0.5 noKeys contactGame \<and>
   contactAtCheck exampleCanvas 0.5 noKeys (update exampleCanvas 0.5 noKeys contactGame) \<and>
   contactAtCheck exampleCanvas 0.5 noKeys
     (update exampleCanvas 0.5 noKeys (update exampleCanvas 0.5 noKeys contactGame)) \<and>
   burnout (update exampleCanvas 0.5 noKeys contactGame) = 25 \<and>
   burnout (update exampleCanvas 0.5 noKeys (update exampleCanvas 0.5 noKeys contactGame)) = 25 \<and>
   burnout (update exampleCanvas 0.5 noKeys
     (update exampleCanvas 0.5 noKeys (update exampleCanvas 0.5 noKeys contactGame))) = 50"
proof -
  let ?s1 = "update exampleCanvas 0.5 noKeys contactGame"
  let ?s2 = "update exampleCanvas 0.5 noKeys ?s1"
  have p0: "player contactGame = (initialPlayer exampleCanvas)\<lparr>x := 1000\<rparr>"
    and d0: "hrDrone contactGame = (initialDrone exampleCanvas)\<lparr>x := 1000, y := 364, vx := 20\<rparr>"
    by (simp_all add: contactGame_def initialGame_def initialDrone_def)
  have w0: "world.width (world contactGame) = 3000"
    by (simp add: contactGame_def initialGame_def)
  have c0: "contactAtCheck exampleCanvas 0.5 noKeys contactGame"
    by (rule contact_when_near [OF contact_facts(1) p0 w0 d0]) simp_all
  have g1: "\<not> gameOver ?s1"
    by (simp add: update_gameOver contact_facts burnoutMax_def)
  have p1: "player ?s1 = (initialPlayer exampleCanvas)\<lparr>x := 1000\<rparr>"
    by (rule standing_player [OF contact_facts(1) p0 w0])
  have d1: "hrDrone ?s1 = (initialDrone exampleCanvas)\<lparr>x := 1000 + 10, y := 364, vx := 20\<rparr>"
    unfolding hrDrone_update_running [OF contact_facts(1)]
    by (rule slow_drone [OF d0]) simp_all
  have c1: "contactAtCheck exampleCanvas 0.5 noKeys ?s1"
    by (rule contact_when_near [OF g1 p1 _ d1]) (simp_all add: w0)
  have b1: "burnout ?s1 = 25" and t1: "invincibleTimer ?s1 = 0.5"
    using c0 by (simp_all add: update_burnout update_invincibleTimer contact_facts burnoutMax_def)
  have g2: "\<not> gameOver ?s2"
    using g1 b1 t1 by (simp add: update_gameOver burnoutMax_def)
  have p2: "player ?s2 = (initialPlayer exampleCanvas)\<lparr>x := 1000\<rparr>"
    by (rule standing_player [OF g1 p1]) (simp add: w0)
  have d2: "hrDrone ?s2 = (initialDrone exampleCanvas)\<lparr>x := 1000 + 10 + 10, y := 364, vx := 20\<rparr>"
    unfolding hrDrone_update_running [OF g1]
    by (rule slow_drone [OF d1]) simp_all
  have c2: "contactAtCheck exampleCanvas 0.5 noKeys ?s2"
    by (rule contact_when_near [OF g2 p2 _ d2]) (simp_all add: w0)
  note r = damage_once_per_grace_window
    [OF contact_facts(1) contact_facts(3) contact_facts(2) refl refl refl c0 c1 c2]
  show ?thesis using contact_facts c0 c1 c2 r by simp
qed

text \<open>
  C5. When a tick of a running game brings \<open>burnout\<close> from below \<open>burnoutMax\<close> to
  \<open>burnoutMax\<close> or more, \<open>burnout\<close> is exactly \<open>burnoutMax\<close> after that tick and the
  game is over; after any further ticks, whatever their elapsed times and key states,
  the game is still over and \<open>burnout\<close> is still \<open>burnoutMax\<close>.
\<close>

theorem game_over_is_terminal:
  assumes "\<not> gameOver s" and "burnout s < burnoutMax"
    and "burnoutMax \<le> burnout (update cv dt k s)"
  shows "burnout (update cv dt k s) = burnoutMax \<and> gameOver (update cv dt k s) \<and>
         (\<forall>ts. gameOver (run cv ts (update cv dt k s)) \<and>
               burnout (run cv ts (update cv dt k s)) = burnoutMax)"
proof -
  have a: "burnout (update cv dt k s) = burnoutMax" and b: "gameOver (update cv dt k s)"
    using assms by (auto simp add: update_burnout update_gameOver split: if_splits)
  show ?thesis using a b run_over [OF b] by simp
qed

theorem game_over_is_terminal_witness:
  "\<not> gameOver lastHitGame \<and> burnout lastHitGame < burnoutMax \<and>
   burnoutMax \<le> burnout (update exampleCanvas 0.016 noKeys lastHitGame) \<and>
   burnout (update exampleCanvas 0.016 noKeys lastHitGame) = burnoutMax \<and>
   gameOver (update exampleCanvas 0.016 noKeys lastHitGame) \<and>
   gameOver (run exampleCanvas [(0.016, jumpKey), (5, leftAndRight)]
     (update exampleCanvas 0.016 noKeys lastHitGame)) \<and>
   burnout (run exampleCanvas [(0.016, jumpKey), (5, leftAndRight)]
     (update exampleCanvas 0.016 noKeys lastHitGame)) = burnoutMax"
proof -
  have h1: "\<not> gameOver lastHitGame" by (rule lastHit_facts)
  have h2: "burnout lastHitGame < burnoutMax" by (simp add: lastHit_facts burnoutMax_def)
  have h3: "burnoutMax \<le> burnout (update exampleCanvas 0.016 noKeys lastHitGame)"
    unfolding lastHit_update by (simp add: burnoutMax_def)
  note r = game_over_is_terminal [OF h1 h2 h3]
  show ?thesis using h1 h2 h3 r by blast
qed

text \<open>
  C6. If the player is not wider than the world, the drone is not wider than its patrol
  range, and both start inside their bounds, then after any sequence of ticks the
  player's \<open>x\<close> lies in \<open>[0, world.width - player.width]\<close> and the drone's \<open>x\<close> lies
  in \<open>[leftBound, rightBound - width]\<close>. The elapsed times need not even be
  non-negative.
\<close>

theorem horizontal_bounds_invariant:
  assumes "width (player s) \<le> world.width (world s)"
    and "width (hrDrone s) \<le> rightBound (hrDrone s) - leftBound (hrDrone s)"
    and "0 \<le> x (player s)"
    and "x (player s) \<le> world.width (world s) - width (player s)"
    and "leftBound (hrDrone s) \<le> x (hrDrone s)"
    and "x (hrDrone s) \<le> rightBound (hrDrone s) - width (hrDrone s)"
  shows "0 \<le> x (player (run cv ts s)) \<and>
         x (player (run cv ts s)) \<le> world.width (world s) - width (player s) \<and>
         leftBound (hrDrone s) \<le> x (hrDrone (run cv ts s)) \<and>
         x (hrDrone (run cv ts s)) \<le> rightBound (hrDrone s) - width (hrDrone s)"
  using assms
proof (induction ts arbitrary: s)
  case Nil
  then show ?case by simp
next
  case (Cons t ts)
  obtain dt k where t: "t = (dt, k)" by (cases t)
  have "0 \<le> x (player (run cv ts (update cv dt k s))) \<and>
        x (player (run cv ts (update cv dt k s)))
          \<le> world.width (world (update cv dt k s)) - width (player (update cv dt k s)) \<and>
        leftBound (hrDrone (update cv dt k s)) \<le> x (hrDrone (run cv ts (update cv dt k s))) \<and>
        x (hrDrone (run cv ts (update cv dt k s)))
          \<le> rightBound (hrDrone (update cv dt k s)) - width (hrDrone (update cv dt k s))"
    using Cons.prems update_keeps_bounds [OF Cons.prems, of cv dt k]
    by (intro Cons.IH) (simp_all add: update_sizes)
  then show ?case by (simp add: t update_sizes)
qed

theorem horizontal_bounds_invariant_witness:
  "width (player (initialGame exampleCanvas)) \<le> world.width (world (initialGame exampleCanvas)) \<and>
   width (hrDrone (initialGame exampleCanvas))
     \<le> rightBound (hrDrone (initialGame exampleCanvas))
         - leftBound (hrDrone (initialGame exampleCanvas)) \<and>
   0 \<le> x (player (initialGame exampleCanvas)) \<and>
   x (player (initialGame exampleCanvas))
     \<le> world.width (world (initialGame exampleCanvas))
         - width (player (initialGame exampleCanvas)) \<and>
   leftBound (hrDrone (initialGame exampleCanvas)) \<le> x (hrDrone (initialGame exampleCanvas)) \<and>
   x (hrDrone (initialGame exampleCanvas))
     \<le> rightBound (hrDrone (initialGame exampleCanvas))
         - width (hrDrone (initialGame exampleCanvas)) \<and>
   x (player (run exampleCanvas [(10, leftAndRight)] (initialGame exampleCanvas))) = 2936 \<and>
   x (hrDrone (run exampleCanvas [(10, leftAndRight)] (initialGame exampleCanvas))) = 1202 \<and>
   0 \<le> x (player (run exampleCanvas [(10, leftAndRight)] (initialGame exampleCanvas))) \<and>
   x (player (run exampleCanvas [(10, leftAndRight)] (initialGame exampleCanvas)))
     \<le> world.width (world (initialGame exampleCanvas))
         - width (player (initialGame exampleCanvas)) \<and>
   leftBound (hrDrone (initialGame exampleCanvas))
     \<le> x (hrDrone (run exampleCanvas [(10, leftAndRight)] (initialGame exampleCanvas))) \<and>
   x (hrDrone (run exampleCanvas [(10, leftAndRight)] (initialGame exampleCanvas)))
     \<le> rightBound (hrDrone (initialGame exampleCanvas))
         - width (hrDrone (initialGame exampleCanvas))"
proof -
  let ?g = "initialGame exampleCanvas"
  have g: "\<not> gameOver ?g" by (simp add: initialGame_def)
  have h: "width (player ?g) \<le> world.width (world ?g)"
    "width (hrDrone ?g) \<le> rightBound (hrDrone ?g) - leftBound (hrDrone ?g)"
    "0 \<le> x (player ?g)"
    "x (player ?g) \<le> world.width (world ?g) - width (player ?g)"
    "leftBound (hrDrone ?g) \<le> x (hrDrone ?g)"
    "x (hrDrone ?g) \<le> rightBound (hrDrone ?g) - width (hrDrone ?g)"
    by (simp_all add: initialGame_def initialPlayer_def initialDrone_def)
  have px: "x (player (run exampleCanvas [(10, leftAndRight)] ?g)) = 2936"
    using g
    by (simp add: player_update_running player_updatePlayer clampToWorldBounds_x
        initialGame_def initialPlayer_def leftAndRight_def)
  have dx: "x (hrDrone (run exampleCanvas [(10, leftAndRight)] ?g)) = 1202"
    using g
    by (simp add: hrDrone_update_running moveHRDrone_def Let_def initialGame_def
        initialDrone_def)
  note r = horizontal_bounds_invariant [OF h, of exampleCanvas "[(10, leftAndRight)]"]
  show ?thesis using h px dx r by blast
qed

text \<open>
  C7. Two boxes (sizes not negative) in exact edge contact overlap according to
  \<^verbatim>\<open>rectsOverlap\<close>: a vertical edge of one on a vertical edge of the other while the
  vertical extents meet, or a horizontal edge on a horizontal edge while the horizontal
  extents meet.
\<close>

theorem edge_contact_overlaps:
  fixes a :: "'a box_scheme" and b :: "'b box_scheme"
  assumes "0 \<le> width a" and "0 \<le> height a" and "0 \<le> width b" and "0 \<le> height b"
    and "(x a + width a = x b \<or> x b + width b = x a) \<and>
           y a \<le> y b + height b \<and> y b \<le> y a + height a
         \<or>
         (y a + height a = y b \<or> y b + height b = y a) \<and>
           x a \<le> x b + width b \<and> x b \<le> x a + width a"
  shows "rectsOverlap a b"
  using assms by (auto simp: rectsOverlap_def)

theorem edge_contact_overlaps_witness:
  "0 \<le> width ((initialPlayer exampleCanvas)\<lparr>x := 386\<rparr>) \<and>
   0 \<le> height ((initialPlayer exampleCanvas)\<lparr>x := 386\<rparr>) \<and>
   0 \<le> width (initialCoffee exampleCanvas) \<and>
   0 \<le> height (initialCoffee exampleCanvas) \<and>
   x ((initialPlayer exampleCanvas)\<lparr>x := 386\<rparr>) + width ((initialPlayer exampleCanvas)\<lparr>x := 386\<rparr>)
     = x (initialCoffee exampleCanvas) \<and>
   y ((initialPlayer exampleCanvas)\<lparr>x := 386\<rparr>)
     \<le> y (initialCoffee exampleCanvas) + height (initialCoffee exampleCanvas) \<and>
   y (initialCoffee exampleCanvas)
     \<le> y ((initialPlayer exampleCanvas)\<lparr>x := 386\<rparr>)
         + height ((initialPlayer exampleCanvas)\<lparr>x := 386\<rparr>) \<and>
   rectsOverlap ((initialPlayer exampleCanvas)\<lparr>x := 386\<rparr>) (initialCoffee exampleCanvas)"
  using edge_contact_overlaps
          [of "(initialPlayer exampleCanvas)\<lparr>x := 386\<rparr>" "initialCoffee exampleCanvas"]
  by (simp add: initialPlayer_def initialCoffee_def)

text \<open>
  C8. On a tick with the game running, the player's horizontal velocity is \<open>speed\<close> when
  the right intent is held (also when left is held too), \<open>- speed\<close> when only left is
  held, and \<open>0\<close> when neither is held: the velocity is reset each tick and right wins
  over left.
\<close>

theorem horizontal_velocity_right_wins:
  "\<not> gameOver s \<Longrightarrow>
   vx (player (update cv dt k s)) =
     (if right k then speed (player s) else if left k then - speed (player s) else 0)"
  by (simp add: player_update_running player_updatePlayer)

theorem horizontal_velocity_right_wins_witness:
  "\<not> gameOver (initialGame exampleCanvas) \<and>
   vx (player (update exampleCanvas 0.016 leftAndRight (initialGame exampleCanvas))) = 350"
  using horizontal_velocity_right_wins
          [of "initialGame exampleCanvas" exampleCanvas "0.016" leftAndRight]
  by (simp add: initialGame_def initialPlayer_def leftAndRight_def)




text \<open>
  C10. The simplified variant's \<^verbatim>\<open>update\<close> and the full variant's \<^verbatim>\<open>updatePlayer\<close>
  (game running) give the same \<open>y\<close>, \<open>vy\<close> and \<open>onGround\<close> from players that agree on
  \<open>y\<close>, \<open>vy\<close>, \<open>onGround\<close>, \<open>jumpForce\<close> and \<open>height\<close>, for every elapsed time and key
  state; gravity, ground height and canvas height are the same on both sides.
\<close>

theorem variants_agree_on_vertical_motion:
  assumes "\<not> gameOver s"
    and "y (basic.player b) = y (player s)"
    and "vy (basic.player b) = vy (player s)"
    and "onGround (basic.player b) = onGround (player s)"
    and "jumpForce (basic.player b) = jumpForce (player s)"
    and "height (basic.player b) = height (player s)"
  shows "y (basic.player (update_basic cv dt k b)) = y (player (updatePlayer cv dt k s)) \<and>
         vy (basic.player (update_basic cv dt k b)) = vy (player (updatePlayer cv dt k s)) \<and>
         onGround (basic.player (update_basic cv dt k b)) =
           onGround (player (updatePlayer cv dt k s))"
  using assms
  by (simp add: player_updatePlayer player_update_basic groundCollision_vertical)

theorem variants_agree_on_vertical_motion_witness:
  "\<not> gameOver (initialGame exampleCanvas) \<and>
   y (basic.player (initialBasic exampleCanvas)) = y (player (initialGame exampleCanvas)) \<and>
   vy (basic.player (initialBasic exampleCanvas)) = vy (player (initialGame exampleCanvas)) \<and>
   onGround (basic.player (initialBasic exampleCanvas)) =
     onGround (player (initialGame exampleCanvas)) \<and>
   jumpForce (basic.player (initialBasic exampleCanvas)) =
     jumpForce (player (initialGame exampleCanvas)) \<and>
   height (basic.player (initialBasic exampleCanvas)) =
     height (player (initialGame exampleCanvas)) \<and>
   y (basic.player (update_basic exampleCanvas 0.016 jumpKey (initialBasic exampleCanvas))) =
     y (player (updatePlayer exampleCanvas 0.016 jumpKey (initialGame exampleCanvas))) \<and>
   vy (basic.player (update_basic exampleCanvas 0.016 jumpKey (initialBasic exampleCanvas))) =
     vy (player (updatePlayer exampleCanvas 0.016 jumpKey (initialGame exampleCanvas))) \<and>
   onGround (basic.player
       (update_basic exampleCanvas 0.016 jumpKey (initialBasic exampleCanvas))) =
     onGround (player (updatePlayer exampleCanvas 0.016 jumpKey (initialGame exampleCanvas)))"
  using variants_agree_on_vertical_motion
          [of "initialGame exampleCanvas" "initialBasic exampleCanvas" exampleCanvas
              "0.016" jumpKey]
  by (simp add: initialGame_def initialPlayer_def initialBasic_def)

end
